theory Spec2Isabelle
  imports Complex_Main "HOL-Library.Log_Nat"
begin

section \<open>HuggingFaceArchitecture: the training-step coordinator\<close>

text \<open>
  A shallow embedding of \<^verbatim>\<open>src/architectures/huggingface_architecture.py\<close>.
  Python integers are \<open>int\<close> and the strings of the source are \<open>string\<close>. Python
  floats are read as real numbers; the one float result that is cut to an integer, the
  product of line 136, is rounded as the machine rounds it, since there a rounding can
  move the integer by a whole step. Objects the class receives from outside
  (the model, the tokenizer, the tensor library) are parameters of the embedding.
\<close>

subsection \<open>Errors\<close>

datatype py_error = ValueError string | IndexError

subsection \<open>Hyperparameters (the scalar fields set by \<^verbatim>\<open>__init__\<close>)\<close>

record hparams =
  strategy :: string
  lr :: real
  weight_decay :: real
  warmup_ratio :: real
  eta_min_ratio :: real
  interval :: string

subsection \<open>Optimizers and schedulers as the objects the source constructs\<close>

datatype optimizer_class = FusedAdam | DeepSpeedCPUAdam | AdamW

text \<open>An optimizer object: its class and the constructor arguments
  \<^verbatim>\<open>(params, lr=..., weight_decay=...)\<close>.\<close>

record 'w optimizer =
  opt_class :: optimizer_class
  opt_params :: 'w
  opt_lr :: real
  opt_weight_decay :: real

text \<open>The two elementary schedulers, each with the optimizer it is attached to, and
  their sequential composition with its list of milestones.\<close>

datatype 'w base_scheduler =
    LambdaLR "'w optimizer" "int \<Rightarrow> real"
  | CosineAnnealingLR "'w optimizer" int real

datatype 'w scheduler =
    SequentialLR "'w optimizer" "'w base_scheduler list" "int list"

record 'w lr_scheduler_config =
  sched :: "'w scheduler"
  sched_interval :: string

record 'w optimizers_config =
  cfg_optimizer :: "'w optimizer"
  cfg_lr_scheduler :: "'w lr_scheduler_config"

subsection \<open>\<^verbatim>\<open>configure_optimizers\<close>\<close>

text \<open>Python's \<^verbatim>\<open>int(x)\<close> on a float truncates toward zero.\<close>

definition py_int :: "real \<Rightarrow> int" where
  "py_int x = (if 0 \<le> x then \<lfloor>x\<rfloor> else \<lceil>x\<rceil>)"

text \<open>The closure \<^verbatim>\<open>lr_lambda\<close>, with the captured \<^verbatim>\<open>warmup_steps\<close>
  as its first argument.\<close>

definition lr_lambda :: "int \<Rightarrow> int \<Rightarrow> real" where
  "lr_lambda warmup_steps current_step =
     (if current_step < warmup_steps
      then real_of_int current_step / real_of_int (max 1 warmup_steps)
      else 1)"

text \<open>The branch on \<^verbatim>\<open>self.strategy\<close>; \<open>ps\<close> stands for
  \<^verbatim>\<open>self.parameters()\<close>.\<close>

definition select_optimizer :: "hparams \<Rightarrow> 'w \<Rightarrow> 'w optimizer" where
  "select_optimizer h ps =
     (if strategy h = ''deepspeed_stage_3''
      then \<lparr>opt_class = FusedAdam, opt_params = ps,
            opt_lr = lr h, opt_weight_decay = weight_decay h\<rparr>
      else if strategy h = ''deepspeed_stage_2_offload''
              \<or> strategy h = ''deepspeed_stage_3_offload''
      then \<lparr>opt_class = DeepSpeedCPUAdam, opt_params = ps,
            opt_lr = lr h, opt_weight_decay = weight_decay h\<rparr>
      else \<lparr>opt_class = AdamW, opt_params = ps,
            opt_lr = lr h, opt_weight_decay = weight_decay h\<rparr>)"

text \<open>
  Floats are IEEE 754 binary64 numbers: 53 significant bits, results rounded to the
  nearest representable number, a tie going to the one with an even last bit. Below
  \<open>2 ^ - 1022\<close> the spacing stays that of the smallest normal numbers. The exponent is
  not bounded above here: a result of \<open>2 ^ 1024\<close> or more, which the machine turns into
  infinity, is outside the range the properties below speak about.
\<close>

definition round_half_even :: "real \<Rightarrow> int" where
  "round_half_even x =
     (if x - of_int \<lfloor>x\<rfloor> < 1 / 2 then \<lfloor>x\<rfloor>
      else if 1 / 2 < x - of_int \<lfloor>x\<rfloor> then \<lfloor>x\<rfloor> + 1
      else if even \<lfloor>x\<rfloor> then \<lfloor>x\<rfloor> else \<lfloor>x\<rfloor> + 1)"

text \<open>The binary exponent of \<open>x\<close>, the floor of its logarithm to base \<open>2\<close>, computed from
  the bit length of an integer (\<open>floorlog 2\<close>) and kept at \<open>- 1022\<close> or above.\<close>

definition float_exponent :: "real \<Rightarrow> int" where
  "float_exponent x =
     (if 1 \<le> \<bar>x\<bar> then int (floorlog 2 (nat \<lfloor>\<bar>x\<bar>\<rfloor>)) - 1
      else max (- int (floorlog 2 (nat (\<lceil>1 / \<bar>x\<bar>\<rceil> - 1)))) (- 1022))"

text \<open>The spacing of the floats around \<open>x\<close>: \<open>2\<close> to the power \<open>float_exponent x - 52\<close>.\<close>

definition float_ulp :: "real \<Rightarrow> real" where
  "float_ulp x =
     (if 52 \<le> float_exponent x then 2 ^ nat (float_exponent x - 52)
      else 1 / 2 ^ nat (52 - float_exponent x))"

definition round_double :: "real \<Rightarrow> real" where
  "round_double x =
     (if x = 0 then 0 else of_int (round_half_even (x / float_ulp x)) * float_ulp x)"

text \<open>The conversion of a Python integer to a float, and the product of two floats.\<close>

definition float_of_int :: "int \<Rightarrow> real" where
  "float_of_int n = round_double (of_int n)"

definition float_mul :: "real \<Rightarrow> real \<Rightarrow> real" where
  "float_mul x y = round_double (x * y)"

text \<open>The three local quantities of the schedule; \<open>total_steps\<close> stands for
  \<^verbatim>\<open>self.trainer.estimated_stepping_batches\<close>. In
  \<^verbatim>\<open>int(total_steps * self.warmup_ratio)\<close> the integer is converted to a float, the
  two floats are multiplied, and the rounded product is truncated.\<close>

definition warmup_steps_of :: "hparams \<Rightarrow> int \<Rightarrow> int" where
  "warmup_steps_of h total_steps =
     py_int (float_mul (float_of_int total_steps) (warmup_ratio h))"

definition t_max_of :: "hparams \<Rightarrow> int \<Rightarrow> int" where
  "t_max_of h total_steps = total_steps - warmup_steps_of h total_steps"

definition eta_min_of :: "hparams \<Rightarrow> real" where
  "eta_min_of h = lr h * eta_min_ratio h"

definition configure_optimizers :: "hparams \<Rightarrow> 'w \<Rightarrow> int \<Rightarrow> 'w optimizers_config" where
  "configure_optimizers h ps total_steps =
     (let optimizer = select_optimizer h ps;
          warmup_steps = warmup_steps_of h total_steps;
          t_max = t_max_of h total_steps;
          eta_min = eta_min_of h;
          warmup_scheduler = LambdaLR optimizer (lr_lambda warmup_steps);
          main_scheduler = CosineAnnealingLR optimizer t_max eta_min;
          scheduler = SequentialLR optimizer [warmup_scheduler, main_scheduler] [warmup_steps]
      in \<lparr>cfg_optimizer = optimizer,
          cfg_lr_scheduler = \<lparr>sched = scheduler, sched_interval = interval h\<rparr>\<rparr>)"

subsection \<open>What the scheduler objects compute\<close>

text \<open>
  Modelled from the spec: the scheduler classes \<^verbatim>\<open>LambdaLR\<close>,
  \<^verbatim>\<open>CosineAnnealingLR\<close> and \<^verbatim>\<open>SequentialLR\<close> belong to the tensor library and
  are not in the repository. Section 4.1 of the spec gives their contract: the first
  multiplies the optimizer's learning rate by the value of its function at the current
  step; the second is a cosine anneal from the optimizer's learning rate down to
  \<open>eta_min\<close> over \<open>T_max\<close> steps; the composition uses the first scheduler before the
  milestone and the second one from the milestone on, the second counting its own steps
  from zero there. The anneal is the closed form of the cosine curve; at its own step
  \<open>0\<close> the argument of the cosine is \<open>0\<close> and the value is the optimizer's learning
  rate, whatever \<open>T_max\<close> is.
\<close>

definition cosine_anneal :: "real \<Rightarrow> int \<Rightarrow> real \<Rightarrow> int \<Rightarrow> real" where
  "cosine_anneal base t_max eta_min t =
     eta_min + (base - eta_min) * (1 + cos (pi * real_of_int t / real_of_int t_max)) / 2"

fun base_lr_at :: "'w base_scheduler \<Rightarrow> int \<Rightarrow> real" where
  "base_lr_at (LambdaLR opt f) t = opt_lr opt * f t"
| "base_lr_at (CosineAnnealingLR opt t_max eta_min) t = cosine_anneal (opt_lr opt) t_max eta_min t"

text \<open>The number of milestones that are at most \<open>s\<close> (the milestones ascend).\<close>

definition bisect_right :: "int list \<Rightarrow> int \<Rightarrow> nat" where
  "bisect_right ms s = length (takeWhile (\<lambda>m. m \<le> s) ms)"

fun lr_at :: "'w scheduler \<Rightarrow> int \<Rightarrow> py_error + real" where
  "lr_at (SequentialLR opt scheds ms) s =
     (let idx = bisect_right ms s in
      if length scheds \<le> idx then Inl IndexError
      else if idx = 0 then Inr (base_lr_at (scheds ! idx) s)
      else Inr (base_lr_at (scheds ! idx) (s - ms ! (idx - 1))))"

text \<open>The learning rate the configured schedule sets at step \<open>s\<close>.\<close>

definition scheduled_lr :: "hparams \<Rightarrow> int \<Rightarrow> int \<Rightarrow> py_error + real" where
  "scheduled_lr h total_steps s =
     lr_at (sched (cfg_lr_scheduler (configure_optimizers h () total_steps))) s"

subsection \<open>Batches, model outputs and the model's collaborators\<close>

text \<open>The mapping \<^verbatim>\<open>encoded\<close>: its \<^verbatim>\<open>labels\<close> entry, a batch of token-id sequences, and
  its other entries, which only the model reads.\<close>

record 'x encoding =
  inputs :: 'x
  labels :: "int list list"

record 'x batch =
  encoded :: "'x encoding"
  index :: "int list"

text \<open>The number of rows of the batch.\<close>

definition batch_size :: "'x batch \<Rightarrow> nat" where
  "batch_size b = length (labels (encoded b))"

record 'l model_output =
  logits :: 'l
  loss :: real

text \<open>The values a step stores in its result mapping.\<close>

datatype ('l, 'p) py_value =
    Scalar real
  | Logits 'l
  | Preds 'p
  | TokenIds "int list list"
  | Strings "string list"
  | Indices "int list"

text \<open>
  The objects the class is given and does not define: the model (called in training or in
  inference mode, the flag being the first argument), its \<^verbatim>\<open>generate\<close>, the tokenizer's
  decoding of one sequence (with the flags \<^verbatim>\<open>skip_special_tokens\<close> and
  \<^verbatim>\<open>clean_up_tokenization_spaces\<close>), and \<^verbatim>\<open>torch.argmax\<close> over the last axis.
\<close>

record ('x, 'l, 'p) collaborators =
  model_call :: "bool \<Rightarrow> 'x encoding \<Rightarrow> 'l model_output"
  model_generate :: "bool \<Rightarrow> 'x encoding \<Rightarrow> int list list"
  tokenizer_decode :: "bool \<Rightarrow> bool \<Rightarrow> int list \<Rightarrow> string"
  argmax_last :: "'l \<Rightarrow> 'p"

text \<open>
  Modelled from the spec: \<^verbatim>\<open>batch_decode\<close> is the tokenizer's and is not in the
  repository; by the tokenizer contract of the spec (section 6) it turns token-id
  sequences into a sequence of strings, one for each.
\<close>

definition batch_decode ::
  "('x, 'l, 'p) collaborators \<Rightarrow> int list list \<Rightarrow> bool \<Rightarrow> bool \<Rightarrow> string list" where
  "batch_decode ext sequences skip_special_tokens clean_up_tokenization_spaces =
     map (tokenizer_decode ext skip_special_tokens clean_up_tokenization_spaces) sequences"

subsection \<open>The mutable state\<close>

text \<open>The calls made on the model: \<^verbatim>\<open>model.train()\<close>, \<^verbatim>\<open>model.eval()\<close>,
  \<^verbatim>\<open>model(encoded)\<close> and \<^verbatim>\<open>model.generate(encoded=encoded)\<close>.\<close>

datatype 'x call = Train | Eval | Call "'x encoding" | Generate "'x encoding"

text \<open>
  The state the methods change: the mode flag of the model, the record of the calls made
  on the model (oldest first), and the two metric accumulators, each holding the batches
  of (decoded generations, decoded labels) recorded so far.
\<close>

record 'x arch_state =
  training :: bool
  calls :: "'x call list"
  val_metrics :: "(string list \<times> string list) list"
  test_metrics :: "(string list \<times> string list) list"

fun is_generate :: "'x call \<Rightarrow> bool" where
  "is_generate (Generate e) = True"
| "is_generate c = False"

fun is_model_call :: "'x call \<Rightarrow> bool" where
  "is_model_call (Call e) = True"
| "is_model_call c = False"

definition generation_count :: "'x call list \<Rightarrow> nat" where
  "generation_count cs = length (filter is_generate cs)"

definition model_call_count :: "'x call list \<Rightarrow> nat" where
  "model_call_count cs = length (filter is_model_call cs)"

subsection \<open>\<^verbatim>\<open>forward\<close> and \<^verbatim>\<open>step\<close>\<close>

text \<open>A method returns its result, or the exception it raises, together with the state
  it leaves behind.\<close>

definition forward ::
  "('x, 'l, 'p) collaborators \<Rightarrow> 'x encoding \<Rightarrow> string \<Rightarrow> 'x arch_state
     \<Rightarrow> (py_error + 'l model_output) \<times> 'x arch_state" where
  "forward ext enc mode st =
     (if mode = ''train'' then
        (let st1 = st\<lparr>training := True, calls := calls st @ [Train]\<rparr>;
             output = model_call ext (training st1) enc
         in (Inr output, st1\<lparr>calls := calls st1 @ [Call enc]\<rparr>))
      else if mode = ''eval'' then
        (let st1 = st\<lparr>training := False, calls := calls st @ [Eval]\<rparr>;
             output = model_call ext (training st1) enc
         in (Inr output, st1\<lparr>calls := calls st1 @ [Call enc]\<rparr>))
      else (Inl (ValueError (''Invalid model mode: '' @ mode)), st))"

definition step ::
  "('x, 'l, 'p) collaborators \<Rightarrow> 'x batch \<Rightarrow> string \<Rightarrow> 'x arch_state
     \<Rightarrow> (py_error + (string \<rightharpoonup> ('l, 'p) py_value)) \<times> 'x arch_state" where
  "step ext b mode st =
     (let enc = encoded b;
          label = labels enc;
          idx = index b
      in case forward ext enc mode st of
           (Inl e, st1) \<Rightarrow> (Inl e, st1)
         | (Inr output, st1) \<Rightarrow>
             (let logit = logits output;
                  pred = argmax_last ext logit;
                  loss_value = loss output
              in if mode = ''train'' then
                   (Inr [''loss'' \<mapsto> Scalar loss_value,
                         ''logit'' \<mapsto> Logits logit,
                         ''pred'' \<mapsto> Preds pred,
                         ''label'' \<mapsto> TokenIds label,
                         ''index'' \<mapsto> Indices idx], st1)
                 else
                   (let generation = model_generate ext (training st1) enc;
                        st2 = st1\<lparr>calls := calls st1 @ [Generate enc]\<rparr>;
                        decoded_generation = batch_decode ext generation True False;
                        decoded_label = batch_decode ext label True False
                    in (Inr [''loss'' \<mapsto> Scalar loss_value,
                             ''logit'' \<mapsto> Logits logit,
                             ''pred'' \<mapsto> Preds pred,
                             ''generation'' \<mapsto> TokenIds generation,
                             ''decoded_generation'' \<mapsto> Strings decoded_generation,
                             ''label'' \<mapsto> TokenIds label,
                             ''decoded_label'' \<mapsto> Strings decoded_label,
                             ''index'' \<mapsto> Indices idx], st2))))"

subsection \<open>\<^verbatim>\<open>predict_step\<close>\<close>

text \<open>The comprehension \<^verbatim>\<open>{index[i]: decoded_generation[i] for i in range(len(index))}\<close>:
  the entries are stored in the order of the positions, a later one replacing an earlier
  one with the same key, and reading past the end of \<^verbatim>\<open>decoded_generation\<close> raises.\<close>

fun index_to_text ::
  "int list \<Rightarrow> string list \<Rightarrow> (int \<rightharpoonup> string) \<Rightarrow> py_error + (int \<rightharpoonup> string)" where
  "index_to_text [] ds m = Inr m"
| "index_to_text (i # is) [] m = Inl IndexError"
| "index_to_text (i # is) (d # ds) m = index_to_text is ds (m(i \<mapsto> d))"

text \<open>
  Modelled from the spec: \<^verbatim>\<open>all_gather\<close> is the training framework's and is not in
  the repository; by section 4.1 of the spec every worker receives the union of all
  workers' partial mappings. The first argument is this worker's mapping, the second the
  mappings of the other workers.
\<close>

definition all_gather :: "(int \<rightharpoonup> string) \<Rightarrow> (int \<rightharpoonup> string) list \<Rightarrow> (int \<rightharpoonup> string)" where
  "all_gather output others = foldl (++) output others"

definition predict_step ::
  "('x, 'l, 'p) collaborators \<Rightarrow> (int \<rightharpoonup> string) list \<Rightarrow> 'x batch \<Rightarrow> int \<Rightarrow> 'x arch_state
     \<Rightarrow> (py_error + (int \<rightharpoonup> string)) \<times> 'x arch_state" where
  "predict_step ext others b batch_idx st =
     (let enc = encoded b;
          idx = index b;
          generation = model_generate ext (training st) enc;
          st1 = st\<lparr>calls := calls st @ [Generate enc]\<rparr>;
          decoded_generation = batch_decode ext generation True False
      in case index_to_text idx decoded_generation Map.empty of
           Inl e \<Rightarrow> (Inl e, st1)
         | Inr output \<Rightarrow> (Inr (all_gather output others), st1))"

subsection \<open>The hooks at the end of an epoch\<close>

text \<open>
  Modelled from the spec: \<^verbatim>\<open>reset\<close> is the metric library's and is not in the
  repository; by section 4.1 of the spec it puts the accumulator back into a fresh empty
  state.
\<close>

definition metric_reset :: "(string list \<times> string list) list \<Rightarrow> (string list \<times> string list) list" where
  "metric_reset acc = []"

definition on_train_epoch_end :: "'x arch_state \<Rightarrow> 'x arch_state" where
  "on_train_epoch_end st = st"

definition on_validation_epoch_end :: "'x arch_state \<Rightarrow> 'x arch_state" where
  "on_validation_epoch_end st = st\<lparr>val_metrics := metric_reset (val_metrics st)\<rparr>"

definition on_test_epoch_end :: "'x arch_state \<Rightarrow> 'x arch_state" where
  "on_test_epoch_end st = st\<lparr>test_metrics := metric_reset (test_metrics st)\<rparr>"

subsection \<open>Concrete instances\<close>

text \<open>The floats that the literals \<^verbatim>\<open>0.1\<close> and \<^verbatim>\<open>0.7\<close> denote.\<close>

definition float_0_1 :: real where
  "float_0_1 = 3602879701896397 / 36028797018963968"

definition float_0_7 :: real where
  "float_0_7 = 3152519739159347 / 4503599627370496"

text \<open>The hyperparameters of the spec's example: with \<open>total_steps = 100\<close> and
  \<open>warmup_ratio = 0.1\<close> the schedule has \<open>warmup_steps = 10\<close> and \<open>t_max = 90\<close>.\<close>

definition example_hparams :: hparams where
  "example_hparams =
     \<lparr>strategy = ''ddp'', lr = 1 / 1000, weight_decay = 1 / 100,
      warmup_ratio = float_0_1, eta_min_ratio = 1 / 100, interval = ''step''\<rparr>"

text \<open>
  A small model and tokenizer to run the steps on. Token ids \<open>0\<close> and \<open>1\<close> are special
  (padding and end of sequence), \<open>2\<close> and \<open>3\<close> are the words \<open>a\<close> and \<open>b\<close>. The model
  generates the first two tokens of each input row followed by the end-of-sequence token.
\<close>

definition toy_decode :: "bool \<Rightarrow> bool \<Rightarrow> int list \<Rightarrow> string" where
  "toy_decode skip_special_tokens clean_up_tokenization_spaces ids =
     concat (map (\<lambda>i. if i = 2 then ''a'' else if i = 3 then ''b'' else ''<s>'')
                 (if skip_special_tokens then filter (\<lambda>i. 2 \<le> i) ids else ids))"

definition toy :: "(int list list, int list list, nat list) collaborators" where
  "toy = \<lparr>model_call = (\<lambda>tr enc. \<lparr>logits = inputs enc, loss = (if tr then 1 else 1 / 2)\<rparr>),
          model_generate = (\<lambda>tr enc. map (\<lambda>row. take 2 row @ [1]) (inputs enc)),
          tokenizer_decode = toy_decode,
          argmax_last = map length\<rparr>"

text \<open>The same model set to return two candidate sequences for each input row: the
  first two tokens, and the first token, each followed by the end-of-sequence token.\<close>

definition toy_two_candidates :: "(int list list, int list list, nat list) collaborators" where
  "toy_two_candidates =
     toy\<lparr>model_generate :=
           (\<lambda>tr enc. concat (map (\<lambda>row. [take 2 row @ [1], take 1 row @ [1]]) (inputs enc)))\<rparr>"

text \<open>A batch of two rows; the second input row holds the end-of-sequence token only.\<close>

definition toy_batch :: "int list list batch" where
  "toy_batch =
     \<lparr>encoded = \<lparr>inputs = [[2, 3, 3, 1], [1]], labels = [[3, 1], [2, 1]]\<rparr>, index = [7, 4]\<rparr>"

definition toy_state :: "int list list arch_state" where
  "toy_state =
     \<lparr>training = True, calls = [],
      val_metrics = [([''ab''], [''b''])], test_metrics = [([''a''], [''a''])]\<rparr>"

section \<open>Properties\<close>

subsection \<open>Rounding to a float\<close>

lemma round_half_even_le: "x \<le> of_int m \<Longrightarrow> round_half_even x \<le> m"
proof -
  assume a: "x \<le> of_int m"
  then have f: "\<lfloor>x\<rfloor> \<le> m" by (simp add: floor_le_iff)
  show ?thesis
  proof (cases "x - of_int \<lfloor>x\<rfloor> < 1 / 2")
    case True
    then show ?thesis using f by (simp add: round_half_even_def)
  next
    case False
    have "\<lfloor>x\<rfloor> \<noteq> m"
    proof
      assume "\<lfloor>x\<rfloor> = m"
      then have "of_int m \<le> x" using of_int_floor_le [of x] by simp
      with a have "x = of_int m" by simp
      with False show False by simp
    qed
    with f have "\<lfloor>x\<rfloor> + 1 \<le> m" by simp
    then show ?thesis using f by (simp add: round_half_even_def)
  qed
qed

lemma round_half_even_ge: "of_int m \<le> x \<Longrightarrow> m \<le> round_half_even x"
proof -
  assume "of_int m \<le> x"
  then have "m \<le> \<lfloor>x\<rfloor>" by (simp add: le_floor_iff)
  then show ?thesis by (simp add: round_half_even_def)
qed

lemma real_pow_le_nat: "2 ^ k \<le> (n::nat) \<Longrightarrow> (2::real) ^ k \<le> real n"
  by (metis of_nat_le_iff of_nat_numeral of_nat_power)

lemma nat_le_real_pow: "(n::nat) \<le> 2 ^ k \<Longrightarrow> real n \<le> (2::real) ^ k"
  by (metis of_nat_le_iff of_nat_numeral of_nat_power)

lemma float_exponent_pos:
  assumes "0 < x"
  shows "float_exponent x = max \<lfloor>log 2 x\<rfloor> (- 1022)"
proof (cases "1 \<le> x")
  case True
  define n where "n = nat \<lfloor>x\<rfloor>"
  define w where "w = floorlog 2 n"
  have n1: "1 \<le> n" using True by (simp add: n_def le_nat_iff le_floor_iff)
  have nx: "real n \<le> x" using True by (simp add: n_def)
  have xn: "x < real n + 1" using True by (simp add: n_def)
  have b: "2 ^ (w - 1) \<le> n \<and> n < 2 ^ w"
    unfolding w_def using n1 by (intro floorlog_bounds) simp_all
  have w1: "1 \<le> w" using n1 by (simp add: w_def floorlog_def)
  from b have "(2::real) ^ (w - 1) \<le> real n" by (intro real_pow_le_nat) simp
  then have lo: "2 ^ (w - 1) \<le> x" using nx by linarith
  from b have "n + 1 \<le> 2 ^ w" by simp
  then have "real (n + 1) \<le> 2 ^ w" by (rule nat_le_real_pow)
  then have hi: "x < 2 ^ w" using xn by simp
  have "(of_int (int w - 1) :: real) = real (w - 1)" using w1 by (simp add: of_nat_diff)
  then have "(2::real) powr (of_int (int w - 1)) = 2 ^ (w - 1)"
    by (simp only: powr_realpow zero_less_numeral)
  moreover have "(2::real) powr (of_int (int w - 1 + 1)) = 2 ^ w"
    by (simp add: powr_realpow)
  ultimately have "\<lfloor>log 2 x\<rfloor> = int w - 1"
    using assms lo hi by (simp add: floor_log_eq_powr_iff)
  then show ?thesis using True by (simp add: float_exponent_def n_def w_def)
next
  case False
  define m where "m = \<lceil>1 / x\<rceil>"
  define n where "n = nat (m - 1)"
  define w where "w = floorlog 2 n"
  have inv: "1 < 1 / x" using assms False by simp
  then have m2: "2 \<le> m" unfolding m_def by (simp add: le_ceiling_iff)
  have n1: "1 \<le> n" using m2 by (simp add: n_def)
  have mn: "m = int n + 1" using m2 by (simp add: n_def)
  have b: "2 ^ (w - 1) \<le> n \<and> n < 2 ^ w"
    unfolding w_def using n1 by (intro floorlog_bounds) simp_all
  have w1: "1 \<le> w" using n1 by (simp add: w_def floorlog_def)
  have "1 / x \<le> of_int m" by (simp add: m_def)
  also have "\<dots> = real (n + 1)" by (simp add: mn)
  also have "\<dots> \<le> 2 ^ w" using b by (intro nat_le_real_pow) simp
  finally have "1 / x \<le> 2 ^ w" .
  then have lo: "1 / 2 ^ w \<le> x" using assms by (simp add: field_simps)
  have "of_int m - 1 < 1 / x" unfolding m_def by linarith
  then have "real n < 1 / x" by (simp add: mn)
  moreover have "(2::real) ^ (w - 1) \<le> real n" using b by (intro real_pow_le_nat) simp
  ultimately have "2 ^ (w - 1) < 1 / x" by linarith
  then have hi: "x < 1 / 2 ^ (w - 1)" using assms by (simp add: field_simps)
  have "(2::real) powr (of_int (- int w)) = 1 / 2 ^ w"
    by (simp add: powr_minus powr_realpow inverse_eq_divide)
  moreover have "(2::real) powr (of_int (- int w + 1)) = 1 / 2 ^ (w - 1)"
  proof -
    have "(of_int (- int w + 1) :: real) = - real (w - 1)" using w1 by (simp add: of_nat_diff)
    then show ?thesis by (simp only: powr_minus powr_realpow zero_less_numeral inverse_eq_divide)
  qed
  ultimately have "\<lfloor>log 2 x\<rfloor> = - int w"
    using assms lo hi by (simp add: floor_log_eq_powr_iff)
  then show ?thesis using False assms by (simp add: float_exponent_def m_def n_def w_def)
qed

lemma float_ulp_powr: "float_ulp x = 2 powr of_int (float_exponent x - 52)"
proof (cases "52 \<le> float_exponent x")
  case True
  then have "(of_int (float_exponent x - 52) :: real) = real (nat (float_exponent x - 52))"
    by simp
  then have "(2::real) powr of_int (float_exponent x - 52) = 2 ^ nat (float_exponent x - 52)"
    by (simp only: powr_realpow zero_less_numeral)
  then show ?thesis using True by (simp add: float_ulp_def)
next
  case False
  then have "(of_int (float_exponent x - 52) :: real) = - real (nat (52 - float_exponent x))"
    by simp
  then have "(2::real) powr of_int (float_exponent x - 52) = 1 / 2 ^ nat (52 - float_exponent x)"
    by (simp only: powr_minus powr_realpow zero_less_numeral inverse_eq_divide)
  then show ?thesis using False by (simp add: float_ulp_def)
qed

lemma float_ulp_pos: "0 < float_ulp x"
  by (simp add: float_ulp_powr)

lemma float_exponent_le_53:
  assumes "0 < x" and "x \<le> 2 ^ 53"
  shows "float_exponent x \<le> 53"
proof -
  have "log 2 x \<le> 53"
    using assms by (simp add: log_le_iff powr_realpow [of 2 53, simplified])
  then have "\<lfloor>log 2 x\<rfloor> \<le> 53" by (simp add: floor_le_iff)
  then show ?thesis by (simp add: float_exponent_pos [OF assms(1)])
qed

lemma float_exponent_53:
  assumes "0 < x" and "x \<le> 2 ^ 53" and "float_exponent x = 53"
  shows "x = 2 ^ 53"
proof -
  have "\<lfloor>log 2 x\<rfloor> = 53"
    using assms(3) by (simp add: float_exponent_pos [OF assms(1)] max_def split: if_splits)
  then have "2 powr (of_int 53) \<le> x"
    using assms(1) by (simp add: floor_log_eq_powr_iff)
  then have "2 ^ 53 \<le> x" by (simp add: powr_realpow [of 2 53, simplified])
  with assms(2) show ?thesis by simp
qed

text \<open>Up to \<open>2 ^ 53\<close> every integer is a multiple of the spacing of the floats around
  \<open>x\<close>; at \<open>2 ^ 53\<close> itself the spacing is \<open>2\<close>.\<close>

lemma int_multiple_of_ulp:
  assumes "0 < x" and "x \<le> 2 ^ 53" and "x = 2 ^ 53 \<longrightarrow> even m"
  shows "\<exists>j::int. of_int m / float_ulp x = of_int j"
proof (cases "float_exponent x \<le> 52")
  case True
  define k where "k = nat (52 - float_exponent x)"
  have "of_int (float_exponent x - 52) = - real k"
    using True by (simp add: k_def)
  then have "float_ulp x = 2 powr (- real k)" by (simp add: float_ulp_powr)
  then have "float_ulp x = 1 / 2 ^ k"
    by (simp add: powr_minus powr_realpow inverse_eq_divide)
  then have "of_int m / float_ulp x = of_int (m * 2 ^ k)" by simp
  then show ?thesis by blast
next
  case False
  then have e: "float_exponent x = 53" using float_exponent_le_53 [OF assms(1,2)] by simp
  then have "x = 2 ^ 53" using assms(1,2) by (rule float_exponent_53 [rotated 2])
  then have "even m" using assms(3) by simp
  then obtain j where "m = 2 * j" by (auto elim: evenE)
  moreover have "float_ulp x = 2" using e by (simp add: float_ulp_def)
  ultimately have "of_int m / float_ulp x = of_int j" by simp
  then show ?thesis by blast
qed

lemma real_le_2_53: "n \<le> 2 ^ 53 \<Longrightarrow> (of_int n :: real) \<le> 2 ^ 53"
  by (metis of_int_le_iff of_int_numeral of_int_power)

lemma real_eq_2_53: "(of_int n :: real) = 2 ^ 53 \<Longrightarrow> n = 2 ^ 53"
  by (metis of_int_eq_iff of_int_numeral of_int_power)

lemma round_double_le:
  assumes "0 < x" and "x \<le> of_int n" and "n \<le> 2 ^ 53"
  shows "round_double x \<le> of_int n"
proof -
  have n: "(of_int n :: real) \<le> 2 ^ 53" using assms(3) by (rule real_le_2_53)
  have x: "x \<le> 2 ^ 53" using assms(2) n by simp
  have "x = 2 ^ 53 \<longrightarrow> even n"
  proof
    assume "x = 2 ^ 53"
    then have "(of_int n :: real) = 2 ^ 53" using assms(2) n by simp
    then have "n = 2 ^ 53" by (rule real_eq_2_53)
    then show "even n" by simp
  qed
  with assms(1) x obtain j :: int where j: "of_int n / float_ulp x = of_int j"
    using int_multiple_of_ulp by blast
  have "x / float_ulp x \<le> of_int n / float_ulp x"
    using assms(2) float_ulp_pos [of x] by (simp add: divide_right_mono)
  then have "round_half_even (x / float_ulp x) \<le> j"
    unfolding j by (rule round_half_even_le)
  then have "of_int (round_half_even (x / float_ulp x)) * float_ulp x \<le> of_int j * float_ulp x"
    using float_ulp_pos [of x] by (simp add: mult_right_mono)
  moreover have "of_int j * float_ulp x = of_int n"
    using j float_ulp_pos [of x] by (simp add: field_simps)
  ultimately show ?thesis using assms(1) by (simp add: round_double_def)
qed

lemma round_double_ge:
  assumes "0 < x" and "x \<le> 2 ^ 53" and "of_int m \<le> x" and "x = 2 ^ 53 \<longrightarrow> even m"
  shows "of_int m \<le> round_double x"
proof -
  from assms(1,2,4) obtain j :: int where j: "of_int m / float_ulp x = of_int j"
    using int_multiple_of_ulp by blast
  have "of_int m / float_ulp x \<le> x / float_ulp x"
    using assms(3) float_ulp_pos [of x] by (simp add: divide_right_mono)
  then have "j \<le> round_half_even (x / float_ulp x)"
    unfolding j by (rule round_half_even_ge)
  then have "of_int j * float_ulp x \<le> of_int (round_half_even (x / float_ulp x)) * float_ulp x"
    using float_ulp_pos [of x] by (simp add: mult_right_mono)
  moreover have "of_int j * float_ulp x = of_int m"
    using j float_ulp_pos [of x] by (simp add: field_simps)
  ultimately show ?thesis using assms(1) by (simp add: round_double_def)
qed

text \<open>The integers from \<open>0\<close> to \<open>2 ^ 53\<close> are floats.\<close>

lemma float_of_int_exact:
  assumes "0 \<le> n" and "n \<le> 2 ^ 53"
  shows "float_of_int n = of_int n"
proof (cases "n = 0")
  case True
  then show ?thesis by (simp add: float_of_int_def round_double_def)
next
  case False
  then have p: "0 < (of_int n :: real)" using assms(1) by simp
  have n: "(of_int n :: real) \<le> 2 ^ 53" using assms(2) by (rule real_le_2_53)
  have "round_double (of_int n) \<le> of_int n"
    using p _ assms(2) by (rule round_double_le) simp
  moreover have "of_int n \<le> round_double (of_int n)"
  proof (rule round_double_ge [OF p n])
    show "(of_int n :: real) \<le> of_int n" by simp
    show "(of_int n :: real) = 2 ^ 53 \<longrightarrow> even n"
    proof
      assume "(of_int n :: real) = 2 ^ 53"
      then have "n = 2 ^ 53" by (rule real_eq_2_53)
      then show "even n" by simp
    qed
  qed
  ultimately show ?thesis by (simp add: float_of_int_def)
qed

text \<open>Rounding a number of known magnitude: for \<open>x\<close> at least \<open>1\<close>, and for \<open>x\<close> below
  \<open>1\<close>.\<close>

lemma round_double_normal:
  fixes k :: nat
  assumes "2 ^ k \<le> x" and "x < 2 ^ Suc k"
  shows "round_double x = of_int (round_half_even (x * 2 ^ 52 / 2 ^ k)) * 2 ^ k / 2 ^ 52"
proof -
  have "(0::real) < 2 ^ k" by simp
  with assms(1) have pos: "0 < x" by linarith
  have "2 powr (of_int (int k)) \<le> x \<and> x < 2 powr (of_int (int k + 1))"
    using assms by (simp add: powr_realpow powr_add)
  then have "\<lfloor>log 2 x\<rfloor> = int k"
    using pos by (simp add: floor_log_eq_powr_iff)
  then have e: "float_exponent x = int k" by (simp add: float_exponent_pos [OF pos])
  have "float_ulp x = 2 powr (real k - 52)" by (simp add: float_ulp_powr e)
  also have "\<dots> = 2 powr (real k) / 2 powr (real (52::nat))" by (simp add: powr_diff)
  also have "\<dots> = 2 ^ k / 2 ^ 52" by (simp only: powr_realpow zero_less_numeral)
  finally have u: "float_ulp x = 2 ^ k / 2 ^ 52" .
  show ?thesis using pos by (simp add: round_double_def u)
qed

lemma round_double_fraction:
  fixes k :: nat
  assumes "1 / 2 ^ k \<le> x" and "x < 2 / 2 ^ k" and "k \<le> 1022"
  shows "round_double x = of_int (round_half_even (x * (2 ^ 52 * 2 ^ k))) / (2 ^ 52 * 2 ^ k)"
proof -
  have "(0::real) < 1 / 2 ^ k" by simp
  with assms(1) have pos: "0 < x" by linarith
  have "2 powr (- real k) = 1 / 2 ^ k"
    by (simp add: powr_minus powr_realpow inverse_eq_divide)
  moreover have "2 powr (- real k + 1) = 2 powr (- real k) * 2 powr 1"
    by (rule powr_add)
  ultimately have "2 powr (of_int (- int k)) \<le> x \<and> x < 2 powr (of_int (- int k + 1))"
    using assms(1,2) by (simp add: add.commute)
  then have "\<lfloor>log 2 x\<rfloor> = - int k"
    using pos by (simp add: floor_log_eq_powr_iff)
  then have e: "float_exponent x = - int k"
    using assms(3) by (simp add: float_exponent_pos [OF pos])
  have "float_ulp x = 2 powr (- real (k + 52))" by (simp add: float_ulp_powr e)
  also have "\<dots> = 1 / 2 ^ (k + 52)"
    by (simp only: powr_minus powr_realpow zero_less_numeral inverse_eq_divide)
  finally have u: "float_ulp x = 1 / (2 ^ 52 * 2 ^ k)" by (simp add: power_add mult.commute)
  show ?thesis using pos by (simp add: round_double_def u)
qed

lemma float_0_1_rounds: "round_double (1 / 10) = float_0_1"
  by (simp add: round_double_fraction [of 4] round_half_even_def float_0_1_def)

lemma float_0_7_rounds: "round_double (7 / 10) = float_0_7"
  by (simp add: round_double_fraction [of 1] round_half_even_def float_0_7_def)

subsection \<open>The quantities of the schedule\<close>

lemma py_int_nonneg: "0 \<le> x \<Longrightarrow> py_int x = \<lfloor>x\<rfloor>"
  by (simp add: py_int_def)

text \<open>For \<open>total_steps\<close> from \<open>0\<close> to \<open>2 ^ 53\<close> and a ratio in \<open>[0, 1]\<close> the rounded
  product lies between the floor and the ceiling of the exact product.\<close>

lemma rounded_product_bounds:
  assumes "0 \<le> total_steps" and "total_steps \<le> 2 ^ 53" and "0 \<le> r" and "r \<le> 1"
  shows "of_int \<lfloor>real_of_int total_steps * r\<rfloor> \<le> round_double (real_of_int total_steps * r)
       \<and> round_double (real_of_int total_steps * r) \<le> of_int \<lceil>real_of_int total_steps * r\<rceil>
       \<and> \<lceil>real_of_int total_steps * r\<rceil> \<le> total_steps"
proof -
  let ?x = "real_of_int total_steps * r"
  have nonneg: "0 \<le> ?x" using assms(1,3) by simp
  have "?x \<le> real_of_int total_steps * 1"
    using assms(1,4) by (intro mult_left_mono) simp_all
  then have le: "?x \<le> real_of_int total_steps" by simp
  then have c: "\<lceil>?x\<rceil> \<le> total_steps" by (simp add: ceiling_le_iff)
  show ?thesis
  proof (cases "?x = 0")
    case True
    have "round_double ?x = 0" "\<lfloor>?x\<rfloor> = 0" "\<lceil>?x\<rceil> = 0"
      unfolding True by (simp_all add: round_double_def)
    then show ?thesis using c by simp
  next
    case False
    with nonneg have pos: "0 < ?x" by (metis order_le_less)
    have x53: "?x \<le> 2 ^ 53" using le real_le_2_53 [OF assms(2)] by simp
    have "?x = 2 ^ 53 \<longrightarrow> even \<lfloor>?x\<rfloor>"
    proof
      assume "?x = 2 ^ 53"
      then have "?x = of_int (2 ^ 53)" by simp
      then have "\<lfloor>?x\<rfloor> = 2 ^ 53" by (simp only: floor_of_int)
      then show "even \<lfloor>?x\<rfloor>" by simp
    qed
    with pos x53 have lo: "of_int \<lfloor>?x\<rfloor> \<le> round_double ?x"
      by (intro round_double_ge) simp_all
    have "\<lceil>?x\<rceil> \<le> 2 ^ 53" using c assms(2) by (rule order_trans)
    with pos have hi: "round_double ?x \<le> of_int \<lceil>?x\<rceil>"
      by (intro round_double_le) simp_all
    from lo hi c show ?thesis by simp
  qed
qed

lemma warmup_steps_rounded:
  assumes "0 \<le> total_steps" and "total_steps \<le> 2 ^ 53" and "0 \<le> warmup_ratio h"
    and "warmup_ratio h \<le> 1"
  shows "warmup_steps_of h total_steps =
           \<lfloor>round_double (real_of_int total_steps * warmup_ratio h)\<rfloor>"
proof -
  have "0 \<le> real_of_int total_steps * warmup_ratio h"
    using assms(1,3) by simp
  then have "(0::real) \<le> of_int \<lfloor>real_of_int total_steps * warmup_ratio h\<rfloor>"
    by simp
  also have "\<dots> \<le> round_double (real_of_int total_steps * warmup_ratio h)"
    using rounded_product_bounds [OF assms] by simp
  finally have "0 \<le> round_double (real_of_int total_steps * warmup_ratio h)" .
  then show ?thesis
    by (simp add: warmup_steps_of_def float_mul_def float_of_int_exact [OF assms(1,2)]
          py_int_nonneg)
qed

lemma warmup_steps_bounds:
  assumes "0 \<le> total_steps" and "total_steps \<le> 2 ^ 53" and "0 \<le> warmup_ratio h"
    and "warmup_ratio h \<le> 1"
  shows "0 \<le> warmup_steps_of h total_steps
       \<and> warmup_steps_of h total_steps \<le> total_steps
       \<and> \<lfloor>real_of_int total_steps * warmup_ratio h\<rfloor> \<le> warmup_steps_of h total_steps
       \<and> warmup_steps_of h total_steps \<le> \<lfloor>real_of_int total_steps * warmup_ratio h\<rfloor> + 1"
proof -
  let ?x = "real_of_int total_steps * warmup_ratio h"
  note b = rounded_product_bounds [OF assms]
  have ws: "warmup_steps_of h total_steps = \<lfloor>round_double ?x\<rfloor>"
    using assms by (rule warmup_steps_rounded)
  have lo: "\<lfloor>?x\<rfloor> \<le> \<lfloor>round_double ?x\<rfloor>" using b by (simp add: le_floor_iff)
  have hi: "\<lfloor>round_double ?x\<rfloor> \<le> \<lceil>?x\<rceil>" using b by (simp add: floor_le_iff)
  have z: "0 \<le> \<lfloor>?x\<rfloor>" using assms(1,3) by simp
  have cf: "\<lceil>?x\<rceil> \<le> \<lfloor>?x\<rfloor> + 1" using ceiling_diff_floor_le_1 [of ?x] by simp
  have ct: "\<lceil>?x\<rceil> \<le> total_steps" using b by simp
  have "0 \<le> \<lfloor>round_double ?x\<rfloor>" using z lo by linarith
  moreover have "\<lfloor>round_double ?x\<rfloor> \<le> total_steps" using hi ct by linarith
  moreover have "\<lfloor>round_double ?x\<rfloor> \<le> \<lfloor>?x\<rfloor> + 1" using hi cf by linarith
  ultimately show ?thesis unfolding ws using lo by blast
qed

lemma configure_optimizers_sched:
  "sched (cfg_lr_scheduler (configure_optimizers h ps total_steps)) =
     SequentialLR (select_optimizer h ps)
       [LambdaLR (select_optimizer h ps) (lr_lambda (warmup_steps_of h total_steps)),
        CosineAnnealingLR (select_optimizer h ps) (t_max_of h total_steps) (eta_min_of h)]
       [warmup_steps_of h total_steps]"
  by (simp add: configure_optimizers_def Let_def)

lemma select_optimizer_lr: "opt_lr (select_optimizer h ps) = lr h"
  by (simp add: select_optimizer_def)

lemma scheduled_lr_warmup:
  assumes "s < warmup_steps_of h total_steps"
  shows "scheduled_lr h total_steps s = Inr (lr h * lr_lambda (warmup_steps_of h total_steps) s)"
  using assms
  by (simp add: scheduled_lr_def configure_optimizers_sched bisect_right_def select_optimizer_lr)

lemma scheduled_lr_anneal:
  assumes "warmup_steps_of h total_steps \<le> s"
  shows "scheduled_lr h total_steps s =
           Inr (cosine_anneal (lr h) (t_max_of h total_steps) (eta_min_of h)
                  (s - warmup_steps_of h total_steps))"
  using assms
  by (simp add: scheduled_lr_def configure_optimizers_sched bisect_right_def select_optimizer_lr)

lemma cosine_anneal_start: "cosine_anneal base t_max eta_min 0 = base"
  by (simp add: cosine_anneal_def field_simps)

lemma example_warmup_steps: "warmup_steps_of example_hparams 100 = 10"
proof -
  have "float_of_int 100 = 100"
    using float_of_int_exact [of 100] by simp
  moreover have "round_double (100 * float_0_1) = 10"
    by (simp add: round_double_normal [of 3] round_half_even_def float_0_1_def)
  ultimately show ?thesis
    by (simp add: warmup_steps_of_def float_mul_def py_int_def example_hparams_def)
qed

lemma example_t_max: "t_max_of example_hparams 100 = 90"
  by (simp add: t_max_of_def example_warmup_steps)

lemma example_eta_min: "eta_min_of example_hparams = 1 / 100000"
  by (simp add: eta_min_of_def example_hparams_def)

lemma warmup_steps_0_7: "warmup_steps_of (example_hparams\<lparr>warmup_ratio := float_0_7\<rparr>) 10 = 7"
proof -
  have "float_of_int 10 = 10"
    using float_of_int_exact [of 10] by simp
  moreover have "round_double (10 * float_0_7) = 7"
    by (simp add: round_double_normal [of 2] round_half_even_def float_0_7_def)
  ultimately show ?thesis
    by (simp add: warmup_steps_of_def float_mul_def py_int_def)
qed

text \<open>Beyond \<open>2 ^ 53\<close> the conversion of \<open>total_steps\<close> to a float can round upwards, and
  then \<open>warmup_steps\<close> can exceed \<open>total_steps\<close>: with \<open>total_steps = 2 ^ 53 + 3\<close> and
  \<open>warmup_ratio = 1\<close> it is \<open>2 ^ 53 + 4\<close>.\<close>

lemma warmup_steps_beyond_2_53:
  "warmup_steps_of (example_hparams\<lparr>warmup_ratio := 1\<rparr>) 9007199254740995 = 9007199254740996"
proof -
  have "round_double 9007199254740995 = 9007199254740996"
    by (simp add: round_double_normal [of 53] round_half_even_def)
  moreover have "round_double 9007199254740996 = 9007199254740996"
    by (simp add: round_double_normal [of 53] round_half_even_def)
  ultimately show ?thesis
    by (simp add: warmup_steps_of_def float_mul_def float_of_int_def py_int_def)
qed

text \<open>
  C2, as the spec states it: \<open>warmup_steps = floor (total_steps * warmup_ratio)\<close>. With
  \<open>total_steps = 10\<close> and \<open>warmup_ratio\<close> the float \<^verbatim>\<open>0.7\<close>, which lies just below
  \<open>7 / 10\<close>, the exact product lies just below \<open>7\<close> and its floor is \<open>6\<close>; the float product
  is rounded to \<open>7.0\<close> and \<open>warmup_steps\<close> is \<open>7\<close>.
\<close>

theorem warmup_steps_rounding_counterexample:
  "(1::int) \<le> 10
   \<and> 0 \<le> warmup_ratio (example_hparams\<lparr>warmup_ratio := float_0_7\<rparr>)
   \<and> warmup_ratio (example_hparams\<lparr>warmup_ratio := float_0_7\<rparr>) \<le> 1
   \<and> warmup_steps_of (example_hparams\<lparr>warmup_ratio := float_0_7\<rparr>) 10 = 7
   \<and> \<lfloor>real_of_int 10 * warmup_ratio (example_hparams\<lparr>warmup_ratio := float_0_7\<rparr>)\<rfloor> = 6"
proof -
  have "\<lfloor>real_of_int 10 * float_0_7\<rfloor> = 6"
    by (simp add: float_0_7_def)
  moreover have "0 \<le> float_0_7 \<and> float_0_7 \<le> 1"
    by (simp add: float_0_7_def)
  ultimately show ?thesis
    by (simp add: warmup_steps_0_7)
qed

text \<open>
  C2, amended. For every \<open>total_steps\<close> from \<open>1\<close> to \<open>2 ^ 53\<close> (the integers a float holds
  exactly) and \<open>warmup_ratio\<close> in \<open>[0, 1]\<close>, \<^verbatim>\<open>configure_optimizers\<close> computes
  \<open>warmup_steps\<close> as the floor of the float product \<open>total_steps * warmup_ratio\<close>, that is
  of the exact product rounded to the nearest float, which is the floor of the exact
  product or one more; it computes \<open>t_max = total_steps - warmup_steps\<close> and
  \<open>eta_min = lr * eta_min_ratio\<close>, hands exactly these to the schedulers it builds, and
  \<open>0 \<le> warmup_steps \<le> total_steps\<close>.
\<close>

theorem configure_optimizers_quantities:
  assumes "1 \<le> total_steps" and "total_steps \<le> 2 ^ 53"
    and "0 \<le> warmup_ratio h" and "warmup_ratio h \<le> 1"
  shows "warmup_steps_of h total_steps =
           \<lfloor>round_double (real_of_int total_steps * warmup_ratio h)\<rfloor>
       \<and> \<lfloor>real_of_int total_steps * warmup_ratio h\<rfloor> \<le> warmup_steps_of h total_steps
       \<and> warmup_steps_of h total_steps \<le> \<lfloor>real_of_int total_steps * warmup_ratio h\<rfloor> + 1
       \<and> t_max_of h total_steps = total_steps - warmup_steps_of h total_steps
       \<and> eta_min_of h = lr h * eta_min_ratio h
       \<and> 0 \<le> warmup_steps_of h total_steps
       \<and> warmup_steps_of h total_steps \<le> total_steps
       \<and> sched (cfg_lr_scheduler (configure_optimizers h ps total_steps)) =
           SequentialLR (select_optimizer h ps)
             [LambdaLR (select_optimizer h ps)
                (lr_lambda \<lfloor>round_double (real_of_int total_steps * warmup_ratio h)\<rfloor>),
              CosineAnnealingLR (select_optimizer h ps)
                (total_steps - \<lfloor>round_double (real_of_int total_steps * warmup_ratio h)\<rfloor>)
                (lr h * eta_min_ratio h)]
             [\<lfloor>round_double (real_of_int total_steps * warmup_ratio h)\<rfloor>]"
proof -
  have nn: "0 \<le> total_steps" using assms(1) by simp
  have ws: "warmup_steps_of h total_steps =
              \<lfloor>round_double (real_of_int total_steps * warmup_ratio h)\<rfloor>"
    using nn assms(2,3,4) by (rule warmup_steps_rounded)
  have bounds: "0 \<le> warmup_steps_of h total_steps
       \<and> warmup_steps_of h total_steps \<le> total_steps
       \<and> \<lfloor>real_of_int total_steps * warmup_ratio h\<rfloor> \<le> warmup_steps_of h total_steps
       \<and> warmup_steps_of h total_steps \<le> \<lfloor>real_of_int total_steps * warmup_ratio h\<rfloor> + 1"
    using nn assms(2,3,4) by (rule warmup_steps_bounds)
  have tm: "t_max_of h total_steps = total_steps - warmup_steps_of h total_steps"
    by (simp add: t_max_of_def)
  have em: "eta_min_of h = lr h * eta_min_ratio h"
    by (simp add: eta_min_of_def)
  have sc: "sched (cfg_lr_scheduler (configure_optimizers h ps total_steps)) =
           SequentialLR (select_optimizer h ps)
             [LambdaLR (select_optimizer h ps)
                (lr_lambda \<lfloor>round_double (real_of_int total_steps * warmup_ratio h)\<rfloor>),
              CosineAnnealingLR (select_optimizer h ps)
                (total_steps - \<lfloor>round_double (real_of_int total_steps * warmup_ratio h)\<rfloor>)
                (lr h * eta_min_ratio h)]
             [\<lfloor>round_double (real_of_int total_steps * warmup_ratio h)\<rfloor>]"
    unfolding configure_optimizers_sched tm em ws by (rule refl)
  from ws tm em bounds sc show ?thesis by blast
qed

theorem configure_optimizers_quantities_witness:
  "(1::int) \<le> 100 \<and> (100::int) \<le> 2 ^ 53
   \<and> 0 \<le> warmup_ratio example_hparams \<and> warmup_ratio example_hparams \<le> 1
   \<and> warmup_steps_of example_hparams 100 = 10
   \<and> t_max_of example_hparams 100 = 90
   \<and> eta_min_of example_hparams = 1 / 100000
   \<and> sched (cfg_lr_scheduler (configure_optimizers example_hparams () 100)) =
        SequentialLR (select_optimizer example_hparams ())
          [LambdaLR (select_optimizer example_hparams ()) (lr_lambda 10),
           CosineAnnealingLR (select_optimizer example_hparams ()) 90 (1 / 100000)]
          [10]"
proof -
  have r: "0 \<le> warmup_ratio example_hparams \<and> warmup_ratio example_hparams \<le> 1"
    by (simp add: example_hparams_def float_0_1_def)
  have "sched (cfg_lr_scheduler (configure_optimizers example_hparams () 100)) =
        SequentialLR (select_optimizer example_hparams ())
          [LambdaLR (select_optimizer example_hparams ()) (lr_lambda 10),
           CosineAnnealingLR (select_optimizer example_hparams ()) 90 (1 / 100000)]
          [10]"
    using configure_optimizers_quantities [of 100 example_hparams "()"] r
      example_warmup_steps example_eta_min
    by simp
  then show ?thesis
    using r by (simp add: example_warmup_steps example_t_max example_eta_min)
qed

subsection \<open>The warmup multiplier\<close>

lemma lr_lambda_ramp:
  "current_step < warmup_steps \<Longrightarrow>
     lr_lambda warmup_steps current_step =
       real_of_int current_step / real_of_int (max 1 warmup_steps)"
  by (simp add: lr_lambda_def)

lemma lr_lambda_full:
  "warmup_steps \<le> current_step \<Longrightarrow> lr_lambda warmup_steps current_step = 1"
  by (simp add: lr_lambda_def)

lemma lr_lambda_range:
  assumes "0 \<le> current_step"
  shows "0 \<le> lr_lambda warmup_steps current_step \<and> lr_lambda warmup_steps current_step \<le> 1"
proof (cases "current_step < warmup_steps")
  case True
  then have pos: "0 < warmup_steps" using assms by simp
  then have m: "max 1 warmup_steps = warmup_steps" by simp
  have "real_of_int current_step / real_of_int warmup_steps \<le> 1"
    using True pos by (simp add: divide_le_eq_1)
  moreover have "0 \<le> real_of_int current_step / real_of_int warmup_steps"
    using assms pos by simp
  ultimately show ?thesis using True by (simp add: lr_lambda_def m)
next
  case False
  then show ?thesis by (simp add: lr_lambda_def)
qed

text \<open>
  C10. The warmup multiplier \<^verbatim>\<open>lr_lambda\<close> is bounded: for every integer
  \<open>current_step \<ge> 0\<close> its value lies in \<open>[0, 1]\<close>, it is exactly \<open>1\<close> for every
  \<open>current_step \<ge> warmup_steps\<close>, and so the learning rate the warmup scheduler sets
  never exceeds the optimizer's (non-negative) \<open>lr\<close>.
\<close>

theorem lr_lambda_bounded:
  assumes "0 \<le> current_step"
  shows "0 \<le> lr_lambda warmup_steps current_step
       \<and> lr_lambda warmup_steps current_step \<le> 1
       \<and> (warmup_steps \<le> current_step \<longrightarrow> lr_lambda warmup_steps current_step = 1)
       \<and> (0 \<le> opt_lr opt \<longrightarrow>
            base_lr_at (LambdaLR opt (lr_lambda warmup_steps)) current_step \<le> opt_lr opt)"
proof -
  have r: "0 \<le> lr_lambda warmup_steps current_step \<and> lr_lambda warmup_steps current_step \<le> 1"
    using assms by (rule lr_lambda_range)
  have f: "warmup_steps \<le> current_step \<longrightarrow> lr_lambda warmup_steps current_step = 1"
    by (simp add: lr_lambda_full)
  have b: "0 \<le> opt_lr opt \<longrightarrow>
            base_lr_at (LambdaLR opt (lr_lambda warmup_steps)) current_step \<le> opt_lr opt"
  proof
    assume "0 \<le> opt_lr opt"
    then have "opt_lr opt * lr_lambda warmup_steps current_step \<le> opt_lr opt * 1"
      using r by (intro mult_left_mono) simp_all
    then show "base_lr_at (LambdaLR opt (lr_lambda warmup_steps)) current_step \<le> opt_lr opt"
      by simp
  qed
  from r f b show ?thesis by blast
qed

theorem lr_lambda_bounded_witness:
  "(0::int) \<le> 5 \<and> lr_lambda 10 5 = 1 / 2 \<and> 0 \<le> lr_lambda 10 5 \<and> lr_lambda 10 5 \<le> 1
   \<and> (10::int) \<le> 12 \<and> lr_lambda 10 12 = 1
   \<and> 0 \<le> opt_lr (select_optimizer example_hparams ())
   \<and> base_lr_at (LambdaLR (select_optimizer example_hparams ()) (lr_lambda 10)) 12
        \<le> opt_lr (select_optimizer example_hparams ())"
  using lr_lambda_bounded [of 5 10 "select_optimizer example_hparams ()"]
    lr_lambda_bounded [of 12 10 "select_optimizer example_hparams ()"]
  by (simp add: lr_lambda_def select_optimizer_def example_hparams_def)

subsection \<open>The composed schedule\<close>

text \<open>
  C1. In the schedule \<^verbatim>\<open>configure_optimizers\<close> returns, at every step \<open>s\<close> with
  \<open>0 \<le> s < warmup_steps\<close> the multiplier is \<open>s / max 1 warmup_steps\<close> and the learning
  rate is \<open>lr\<close> times that multiplier (the cosine anneal has no part in it); from step
  \<open>warmup_steps\<close> on the learning rate is the value of the cosine anneal alone, counted
  from its own step \<open>0\<close> at \<open>warmup_steps\<close> (the multiplier has no part in it).
\<close>

theorem schedule_two_phases:
  assumes "0 \<le> s"
  shows "(s < warmup_steps_of h total_steps \<longrightarrow>
            lr_lambda (warmup_steps_of h total_steps) s =
              real_of_int s / real_of_int (max 1 (warmup_steps_of h total_steps))
          \<and> scheduled_lr h total_steps s =
              Inr (lr h * (real_of_int s / real_of_int (max 1 (warmup_steps_of h total_steps)))))
       \<and> (warmup_steps_of h total_steps \<le> s \<longrightarrow>
            scheduled_lr h total_steps s =
              Inr (cosine_anneal (lr h) (t_max_of h total_steps) (eta_min_of h)
                     (s - warmup_steps_of h total_steps)))"
proof (intro conjI impI)
  assume w: "s < warmup_steps_of h total_steps"
  show "lr_lambda (warmup_steps_of h total_steps) s =
          real_of_int s / real_of_int (max 1 (warmup_steps_of h total_steps))"
    using w by (rule lr_lambda_ramp)
  then show "scheduled_lr h total_steps s =
          Inr (lr h * (real_of_int s / real_of_int (max 1 (warmup_steps_of h total_steps))))"
    using scheduled_lr_warmup [OF w] by simp
next
  assume "warmup_steps_of h total_steps \<le> s"
  then show "scheduled_lr h total_steps s =
          Inr (cosine_anneal (lr h) (t_max_of h total_steps) (eta_min_of h)
                 (s - warmup_steps_of h total_steps))"
    by (rule scheduled_lr_anneal)
qed

theorem schedule_two_phases_witness:
  "(0::int) \<le> 5 \<and> 5 < warmup_steps_of example_hparams 100
   \<and> lr_lambda (warmup_steps_of example_hparams 100) 5 = 1 / 2
   \<and> scheduled_lr example_hparams 100 5 = Inr (1 / 2000)
   \<and> (0::int) \<le> 10 \<and> warmup_steps_of example_hparams 100 \<le> 10
   \<and> scheduled_lr example_hparams 100 10 = Inr (cosine_anneal (1 / 1000) 90 (1 / 100000) 0)"
proof -
  have l: "lr h = 1 / 1000" if "h = example_hparams" for h
    using that by (simp add: example_hparams_def)
  have a: "scheduled_lr example_hparams 100 5 = Inr (1 / 2000)"
    and b: "lr_lambda (warmup_steps_of example_hparams 100) 5 = 1 / 2"
    using schedule_two_phases [of 5 example_hparams 100]
    by (simp_all add: example_warmup_steps l)
  have c: "scheduled_lr example_hparams 100 10 =
             Inr (cosine_anneal (1 / 1000) 90 (1 / 100000) 0)"
    using schedule_two_phases [of 10 example_hparams 100]
    by (simp add: example_warmup_steps example_t_max example_eta_min l)
  from a b c show ?thesis by (simp add: example_warmup_steps)
qed

text \<open>
  C3, as the spec states it: the multiplier at step \<open>0\<close> is \<open>1 / max 1 warmup_steps\<close>
  when \<open>warmup_steps \<ge> 1\<close>. With the hyperparameters of the spec's own example
  (\<open>warmup_steps = 10\<close>) the multiplier at step \<open>0\<close> is \<open>0\<close>, not \<open>1 / 10\<close>, and the
  learning rate set at step \<open>0\<close> is \<open>0\<close>.
\<close>

theorem schedule_step0_counterexample:
  "1 \<le> warmup_steps_of example_hparams 100
   \<and> lr_lambda (warmup_steps_of example_hparams 100) 0 = 0
   \<and> lr_lambda (warmup_steps_of example_hparams 100) 0
        \<noteq> 1 / real_of_int (max 1 (warmup_steps_of example_hparams 100))
   \<and> scheduled_lr example_hparams 100 0 = Inr 0"
proof -
  have "scheduled_lr example_hparams 100 0 = Inr 0"
    using scheduled_lr_warmup [of 0 example_hparams 100]
    by (simp add: example_warmup_steps lr_lambda_def)
  then show ?thesis
    by (simp add: example_warmup_steps lr_lambda_def)
qed

text \<open>
  C3, amended. With \<open>warmup_steps \<ge> 1\<close> the multiplier at step \<open>0\<close> is \<open>0\<close> (the ramp
  starts at zero, so the learning rate set at step \<open>0\<close> is \<open>0\<close>), and
  \<open>1 / max 1 warmup_steps\<close> is the multiplier at step \<open>1\<close>; with \<open>warmup_steps = 0\<close> the
  multiplier at step \<open>0\<close> is exactly \<open>1\<close>. At step \<open>warmup_steps\<close> the schedule takes the
  value of the cosine anneal at its own step \<open>0\<close>, which is the full \<open>lr\<close>.
\<close>

theorem schedule_boundary_values:
  "(1 \<le> warmup_steps_of h total_steps \<longrightarrow>
      lr_lambda (warmup_steps_of h total_steps) 0 = 0
    \<and> scheduled_lr h total_steps 0 = Inr 0
    \<and> lr_lambda (warmup_steps_of h total_steps) 1 =
        1 / real_of_int (max 1 (warmup_steps_of h total_steps)))
   \<and> (warmup_steps_of h total_steps = 0 \<longrightarrow>
        lr_lambda (warmup_steps_of h total_steps) 0 = 1)
   \<and> scheduled_lr h total_steps (warmup_steps_of h total_steps) =
        Inr (cosine_anneal (lr h) (t_max_of h total_steps) (eta_min_of h) 0)
   \<and> cosine_anneal (lr h) (t_max_of h total_steps) (eta_min_of h) 0 = lr h"
proof (intro conjI impI)
  assume w: "1 \<le> warmup_steps_of h total_steps"
  show "lr_lambda (warmup_steps_of h total_steps) 0 = 0"
    using w by (simp add: lr_lambda_def)
  have "0 < warmup_steps_of h total_steps" using w by simp
  from scheduled_lr_warmup [OF this] show "scheduled_lr h total_steps 0 = Inr 0"
    using w by (simp add: lr_lambda_def)
  show "lr_lambda (warmup_steps_of h total_steps) 1 =
          1 / real_of_int (max 1 (warmup_steps_of h total_steps))"
    using w by (cases "warmup_steps_of h total_steps = 1") (simp_all add: lr_lambda_def)
next
  assume "warmup_steps_of h total_steps = 0"
  then show "lr_lambda (warmup_steps_of h total_steps) 0 = 1"
    by (simp add: lr_lambda_def)
next
  show "scheduled_lr h total_steps (warmup_steps_of h total_steps) =
          Inr (cosine_anneal (lr h) (t_max_of h total_steps) (eta_min_of h) 0)"
    using scheduled_lr_anneal [of h total_steps "warmup_steps_of h total_steps"] by simp
next
  show "cosine_anneal (lr h) (t_max_of h total_steps) (eta_min_of h) 0 = lr h"
    by (rule cosine_anneal_start)
qed

theorem schedule_boundary_values_witness:
  "1 \<le> warmup_steps_of example_hparams 100
   \<and> lr_lambda (warmup_steps_of example_hparams 100) 0 = 0
   \<and> scheduled_lr example_hparams 100 0 = Inr 0
   \<and> lr_lambda (warmup_steps_of example_hparams 100) 1 = 1 / 10
   \<and> scheduled_lr example_hparams 100 10 = Inr (1 / 1000)
   \<and> warmup_steps_of (example_hparams\<lparr>warmup_ratio := 0\<rparr>) 100 = 0
   \<and> lr_lambda (warmup_steps_of (example_hparams\<lparr>warmup_ratio := 0\<rparr>) 100) 0 = 1
   \<and> scheduled_lr (example_hparams\<lparr>warmup_ratio := 0\<rparr>) 100 0 = Inr (1 / 1000)"
proof -
  have z: "warmup_steps_of (example_hparams\<lparr>warmup_ratio := 0\<rparr>) 100 = 0"
    by (simp add: warmup_steps_of_def float_mul_def round_double_def py_int_def)
  have l: "lr example_hparams = 1 / 1000" "lr (example_hparams\<lparr>warmup_ratio := 0\<rparr>) = 1 / 1000"
    by (simp_all add: example_hparams_def)
  have a: "lr_lambda (warmup_steps_of example_hparams 100) 0 = 0
         \<and> scheduled_lr example_hparams 100 0 = Inr 0
         \<and> lr_lambda (warmup_steps_of example_hparams 100) 1 = 1 / 10
         \<and> scheduled_lr example_hparams 100 10 = Inr (1 / 1000)"
    using schedule_boundary_values [of example_hparams 100]
    by (simp add: example_warmup_steps l)
  have b: "lr_lambda (warmup_steps_of (example_hparams\<lparr>warmup_ratio := 0\<rparr>) 100) 0 = 1
         \<and> scheduled_lr (example_hparams\<lparr>warmup_ratio := 0\<rparr>) 100 0 = Inr (1 / 1000)"
    using schedule_boundary_values [of "example_hparams\<lparr>warmup_ratio := 0\<rparr>" 100]
    by (simp add: z l)
  from a b z show ?thesis by (simp add: example_warmup_steps)
qed

subsection \<open>The choice of the optimizer\<close>

text \<open>
  C4. \<^verbatim>\<open>configure_optimizers\<close> chooses the optimizer by the strategy string alone:
  \<^verbatim>\<open>"deepspeed_stage_3"\<close> gives \<open>FusedAdam\<close>, \<^verbatim>\<open>"deepspeed_stage_2_offload"\<close> and
  \<^verbatim>\<open>"deepspeed_stage_3_offload"\<close> give \<open>DeepSpeedCPUAdam\<close>, every other string gives
  \<open>AdamW\<close> (the function has no failing branch), and in each case the optimizer is built
  from the same parameters, \<open>lr\<close> and \<open>weight_decay\<close>.
\<close>

theorem optimizer_by_strategy:
  "(strategy h = ''deepspeed_stage_3'' \<longrightarrow>
      opt_class (cfg_optimizer (configure_optimizers h ps total_steps)) = FusedAdam)
   \<and> (strategy h = ''deepspeed_stage_2_offload'' \<or> strategy h = ''deepspeed_stage_3_offload'' \<longrightarrow>
      opt_class (cfg_optimizer (configure_optimizers h ps total_steps)) = DeepSpeedCPUAdam)
   \<and> (strategy h \<noteq> ''deepspeed_stage_3'' \<and> strategy h \<noteq> ''deepspeed_stage_2_offload''
        \<and> strategy h \<noteq> ''deepspeed_stage_3_offload'' \<longrightarrow>
      opt_class (cfg_optimizer (configure_optimizers h ps total_steps)) = AdamW)
   \<and> opt_params (cfg_optimizer (configure_optimizers h ps total_steps)) = ps
   \<and> opt_lr (cfg_optimizer (configure_optimizers h ps total_steps)) = lr h
   \<and> opt_weight_decay (cfg_optimizer (configure_optimizers h ps total_steps)) = weight_decay h
   \<and> (strategy h' = strategy h \<longrightarrow>
        opt_class (cfg_optimizer (configure_optimizers h' ps' total_steps')) =
        opt_class (cfg_optimizer (configure_optimizers h ps total_steps)))"
  by (simp add: configure_optimizers_def Let_def select_optimizer_def)

theorem optimizer_by_strategy_witness:
  "opt_class (cfg_optimizer
      (configure_optimizers (example_hparams\<lparr>strategy := ''deepspeed_stage_3''\<rparr>) () 100)) = FusedAdam
   \<and> opt_class (cfg_optimizer
      (configure_optimizers (example_hparams\<lparr>strategy := ''deepspeed_stage_2_offload''\<rparr>) () 100))
        = DeepSpeedCPUAdam
   \<and> opt_class (cfg_optimizer
      (configure_optimizers (example_hparams\<lparr>strategy := ''deepspeed_stage_3_offload''\<rparr>) () 100))
        = DeepSpeedCPUAdam
   \<and> opt_class (cfg_optimizer
      (configure_optimizers (example_hparams\<lparr>strategy := ''unknown''\<rparr>) () 100)) = AdamW
   \<and> opt_class (cfg_optimizer (configure_optimizers example_hparams () 100)) = AdamW
   \<and> opt_lr (cfg_optimizer (configure_optimizers example_hparams () 100)) = 1 / 1000
   \<and> opt_weight_decay (cfg_optimizer (configure_optimizers example_hparams () 100)) = 1 / 100"
  using optimizer_by_strategy
      [of "example_hparams\<lparr>strategy := ''deepspeed_stage_3''\<rparr>" "()" 100
          "example_hparams\<lparr>strategy := ''deepspeed_stage_3'', lr := 1\<rparr>" "()" 7]
    optimizer_by_strategy
      [of "example_hparams\<lparr>strategy := ''deepspeed_stage_2_offload''\<rparr>" "()" 100 example_hparams "()" 100]
    optimizer_by_strategy
      [of "example_hparams\<lparr>strategy := ''deepspeed_stage_3_offload''\<rparr>" "()" 100 example_hparams "()" 100]
    optimizer_by_strategy
      [of "example_hparams\<lparr>strategy := ''unknown''\<rparr>" "()" 100 example_hparams "()" 100]
    optimizer_by_strategy [of example_hparams "()" 100 example_hparams "()" 100]
  by (simp add: example_hparams_def)

subsection \<open>\<^verbatim>\<open>forward\<close>\<close>

text \<open>
  C7. \<^verbatim>\<open>forward\<close> raises for every mode other than \<^verbatim>\<open>"train"\<close> and \<^verbatim>\<open>"eval"\<close>
  (the source raises \<^verbatim>\<open>ValueError\<close>, which the spec calls \<open>InvalidModeError\<close>) and then
  leaves the state as it was, so the model is not called; for \<^verbatim>\<open>"train"\<close> it puts the
  model into training mode, for \<^verbatim>\<open>"eval"\<close> into inference mode, then calls the model in
  that mode and returns its output.
\<close>

theorem forward_modes:
  "(mode \<noteq> ''train'' \<and> mode \<noteq> ''eval'' \<longrightarrow>
      forward ext enc mode st = (Inl (ValueError (''Invalid model mode: '' @ mode)), st))
   \<and> forward ext enc ''train'' st =
       (Inr (model_call ext True enc),
        st\<lparr>training := True, calls := calls st @ [Train, Call enc]\<rparr>)
   \<and> forward ext enc ''eval'' st =
       (Inr (model_call ext False enc),
        st\<lparr>training := False, calls := calls st @ [Eval, Call enc]\<rparr>)"
  by (simp add: forward_def Let_def)

theorem forward_modes_witness:
  "''test'' \<noteq> ''train'' \<and> ''test'' \<noteq> ''eval''
   \<and> forward toy (encoded toy_batch) ''test'' toy_state =
       (Inl (ValueError ''Invalid model mode: test''), toy_state)
   \<and> model_call_count (calls (snd (forward toy (encoded toy_batch) ''test'' toy_state))) = 0
   \<and> fst (forward toy (encoded toy_batch) ''eval'' toy_state) =
       Inr \<lparr>logits = [[2, 3, 3, 1], [1]], loss = 1 / 2\<rparr>
   \<and> training (snd (forward toy (encoded toy_batch) ''eval'' toy_state)) = False"
  using forward_modes [of "''test''" toy "encoded toy_batch" toy_state]
  by (simp add: toy_def toy_batch_def toy_state_def model_call_count_def)

subsection \<open>\<^verbatim>\<open>step\<close>\<close>

text \<open>
  C5. For every batch, \<^verbatim>\<open>step(batch, "train")\<close> returns a mapping whose keys are exactly
  \<open>loss\<close>, \<open>logit\<close>, \<open>pred\<close>, \<open>label\<close> and \<open>index\<close>, where \<open>logit\<close> and \<open>loss\<close> are those of
  the model's output in training mode, \<open>pred\<close> is the argmax of that \<open>logit\<close> over its last
  axis, \<open>label\<close> and \<open>index\<close> are the batch's; the model is put into training mode and called
  once, and its generation is not called.
\<close>

theorem step_train:
  "\<exists>r st'. step ext b ''train'' st = (Inr r, st')
     \<and> dom r = {''loss'', ''logit'', ''pred'', ''label'', ''index''}
     \<and> r ''loss'' = Some (Scalar (loss (model_call ext True (encoded b))))
     \<and> r ''logit'' = Some (Logits (logits (model_call ext True (encoded b))))
     \<and> r ''pred'' = Some (Preds (argmax_last ext (logits (model_call ext True (encoded b)))))
     \<and> r ''label'' = Some (TokenIds (labels (encoded b)))
     \<and> r ''index'' = Some (Indices (index b))
     \<and> calls st' = calls st @ [Train, Call (encoded b)]
     \<and> generation_count (calls st') = generation_count (calls st)"
  by (simp add: step_def forward_def Let_def generation_count_def) auto

lemma step_eval_result:
  "step ext b ''eval'' st =
     (Inr [''loss'' \<mapsto> Scalar (loss (model_call ext False (encoded b))),
           ''logit'' \<mapsto> Logits (logits (model_call ext False (encoded b))),
           ''pred'' \<mapsto> Preds (argmax_last ext (logits (model_call ext False (encoded b)))),
           ''generation'' \<mapsto> TokenIds (model_generate ext False (encoded b)),
           ''decoded_generation'' \<mapsto>
              Strings (map (tokenizer_decode ext True False) (model_generate ext False (encoded b))),
           ''label'' \<mapsto> TokenIds (labels (encoded b)),
           ''decoded_label'' \<mapsto>
              Strings (map (tokenizer_decode ext True False) (labels (encoded b))),
           ''index'' \<mapsto> Indices (index b)],
      st\<lparr>training := False,
         calls := calls st @ [Eval, Call (encoded b), Generate (encoded b)]\<rparr>)"
  by (simp add: step_def forward_def Let_def batch_decode_def)

text \<open>
  C6, as the spec states it: for every batch \<open>decoded_generation\<close> has as many strings
  as the batch has rows. With the model that returns two candidate sequences for each
  row, the batch of two rows gives four decoded strings.
\<close>

theorem step_eval_length_counterexample:
  "batch_size toy_batch = 2
   \<and> (case step toy_two_candidates toy_batch ''eval'' toy_state of
         (Inr r, st') \<Rightarrow> r ''decoded_generation'' = Some (Strings [''ab'', ''a'', [], []])
       | (Inl e, st') \<Rightarrow> False)
   \<and> length [''ab'', ''a'', [], []] \<noteq> batch_size toy_batch"
  by (simp add: step_eval_result batch_size_def toy_two_candidates_def toy_def toy_batch_def
        toy_decode_def)

text \<open>
  C6, amended. For every batch, \<^verbatim>\<open>step(batch, "eval")\<close> calls the model's generation on
  the encoded input (once, after the model call in inference mode), decodes the generated
  sequences and the label sequences with special tokens skipped and without whitespace
  cleanup, and returns the keys of the training result together with \<open>generation\<close>,
  \<open>decoded_generation\<close> and \<open>decoded_label\<close>. \<open>decoded_label\<close> has one string for each row
  of the batch; \<open>decoded_generation\<close> has one string for each generated sequence, so its
  length is the batch size exactly when the model generates one sequence for each row.
\<close>

theorem step_eval:
  "\<exists>r st' dg dl. step ext b ''eval'' st = (Inr r, st')
     \<and> dom r = {''loss'', ''logit'', ''pred'', ''label'', ''index'',
                ''generation'', ''decoded_generation'', ''decoded_label''}
     \<and> r ''generation'' = Some (TokenIds (model_generate ext False (encoded b)))
     \<and> r ''decoded_generation'' = Some (Strings dg)
     \<and> dg = map (tokenizer_decode ext True False) (model_generate ext False (encoded b))
     \<and> r ''decoded_label'' = Some (Strings dl)
     \<and> dl = map (tokenizer_decode ext True False) (labels (encoded b))
     \<and> length dl = batch_size b
     \<and> length dg = length (model_generate ext False (encoded b))
     \<and> (length dg = batch_size b
          \<longleftrightarrow> length (model_generate ext False (encoded b)) = batch_size b)
     \<and> calls st' = calls st @ [Eval, Call (encoded b), Generate (encoded b)]
     \<and> generation_count (calls st') = generation_count (calls st) + 1"
proof -
  let ?g = "model_generate ext False (encoded b)"
  let ?dg = "map (tokenizer_decode ext True False) ?g"
  let ?dl = "map (tokenizer_decode ext True False) (labels (encoded b))"
  let ?out = "model_call ext False (encoded b)"
  let ?r = "[''loss'' \<mapsto> Scalar (loss ?out),
             ''logit'' \<mapsto> Logits (logits ?out),
             ''pred'' \<mapsto> Preds (argmax_last ext (logits ?out)),
             ''generation'' \<mapsto> TokenIds ?g,
             ''decoded_generation'' \<mapsto> Strings ?dg,
             ''label'' \<mapsto> TokenIds (labels (encoded b)),
             ''decoded_label'' \<mapsto> Strings ?dl,
             ''index'' \<mapsto> Indices (index b)]"
  let ?st = "st\<lparr>training := False,
                calls := calls st @ [Eval, Call (encoded b), Generate (encoded b)]\<rparr>"
  have s: "step ext b ''eval'' st = (Inr ?r, ?st)" by (rule step_eval_result)
  have d: "dom ?r = {''loss'', ''logit'', ''pred'', ''label'', ''index'',
                ''generation'', ''decoded_generation'', ''decoded_label''}"
    by (simp add: insert_commute)
  have g: "?r ''generation'' = Some (TokenIds ?g)" by simp
  have dg: "?r ''decoded_generation'' = Some (Strings ?dg)" by simp
  have dl: "?r ''decoded_label'' = Some (Strings ?dl)" by simp
  have ldl: "length ?dl = batch_size b" by (simp add: batch_size_def)
  have ldg: "length ?dg = length ?g" by simp
  have iff: "length ?dg = batch_size b \<longleftrightarrow> length ?g = batch_size b" by simp
  have c: "calls ?st = calls st @ [Eval, Call (encoded b), Generate (encoded b)]" by simp
  have n: "generation_count (calls ?st) = generation_count (calls st) + 1"
    by (simp add: generation_count_def)
  from s d g dg dl ldl ldg iff c n show ?thesis by blast
qed

theorem step_eval_witness:
  "length (model_generate toy False (encoded toy_batch)) = batch_size toy_batch
   \<and> batch_size toy_batch = 2
   \<and> (case step toy toy_batch ''eval'' toy_state of
         (Inr r, st') \<Rightarrow>
            r ''generation'' = Some (TokenIds [[2, 3, 1], [1, 1]])
          \<and> r ''decoded_generation'' = Some (Strings [''ab'', []])
          \<and> r ''decoded_label'' = Some (Strings [''b'', ''a''])
          \<and> generation_count (calls st') = 1
       | (Inl e, st') \<Rightarrow> False)"
proof -
  have g: "model_generate toy False (encoded toy_batch) = [[2, 3, 1], [1, 1]]"
    by (simp add: toy_def toy_batch_def)
  have l: "labels (encoded toy_batch) = [[3, 1], [2, 1]]"
    by (simp add: toy_batch_def)
  have dg: "map (tokenizer_decode toy True False) [[2, 3, 1], [1, 1]] = [''ab'', []]"
    by (simp add: toy_def toy_decode_def)
  have dl: "map (tokenizer_decode toy True False) [[3, 1], [2, 1]] = [''b'', ''a'']"
    by (simp add: toy_def toy_decode_def)
  have n: "batch_size toy_batch = 2"
    by (simp add: batch_size_def l)
  have c: "generation_count (calls toy_state) = 0"
    by (simp add: generation_count_def toy_state_def)
  have h: "length (model_generate toy False (encoded toy_batch)) = batch_size toy_batch"
    by (simp add: g n)
  have "case step toy toy_batch ''eval'' toy_state of
         (Inr r, st') \<Rightarrow>
            r ''generation'' = Some (TokenIds [[2, 3, 1], [1, 1]])
          \<and> r ''decoded_generation'' = Some (Strings [''ab'', []])
          \<and> r ''decoded_label'' = Some (Strings [''b'', ''a''])
          \<and> generation_count (calls st') = 1
       | (Inl e, st') \<Rightarrow> False"
    using step_eval [of toy toy_batch toy_state] unfolding g l dg dl n c
    by (elim exE conjE) simp
  then show ?thesis using h n by simp
qed

subsection \<open>\<^verbatim>\<open>predict_step\<close>\<close>

lemma index_to_text_closed:
  "length idx \<le> length ds \<Longrightarrow>
     index_to_text idx ds m = Inr (m ++ map_of (rev (zip idx ds)))"
proof (induction idx arbitrary: ds m)
  case Nil
  show ?case by simp
next
  case (Cons i idx)
  then obtain d ds' where ds: "ds = d # ds'" by (cases ds) auto
  with Cons.prems have "length idx \<le> length ds'" by simp
  then have "index_to_text idx ds' (m(i \<mapsto> d)) = Inr (m(i \<mapsto> d) ++ map_of (rev (zip idx ds')))"
    by (rule Cons.IH)
  moreover have "m ++ map_of (rev (zip (i # idx) (d # ds'))) = m(i \<mapsto> d) ++ map_of (rev (zip idx ds'))"
    by (rule ext) (simp add: map_add_def split: option.split)
  ultimately show ?case by (simp add: ds)
qed

lemma index_to_text_short:
  "length ds < length idx \<Longrightarrow> index_to_text idx ds m = Inl IndexError"
  by (induction idx ds m rule: index_to_text.induct) simp_all

lemma dom_map_of_rev_zip:
  "length idx \<le> length ds \<Longrightarrow> dom (map_of (rev (zip idx ds))) = set idx"
  by (simp add: dom_map_of_conv_image_fst map_fst_zip_take min_absorb1 flip: set_map)

lemma map_of_rev_zip_distinct:
  assumes "distinct idx" and "length idx \<le> length ds" and "i < length idx"
  shows "map_of (rev (zip idx ds)) (idx ! i) = Some (ds ! i)"
proof -
  have d: "distinct (map fst (zip idx ds))"
    using assms(1,2) by (simp add: map_fst_zip_take min_absorb1)
  have "(idx ! i, ds ! i) \<in> set (zip idx ds)"
    using assms(2,3) by (auto simp: set_zip)
  then have "map_of (zip idx ds) (idx ! i) = Some (ds ! i)"
    using d by simp
  moreover have "map_of (rev (zip idx ds)) = map_of (zip idx ds)"
    using d by (simp add: map_of_inject_set rev_map [symmetric])
  ultimately show ?thesis by simp
qed

lemma dom_all_gather: "dom (all_gather mine others) = dom mine \<union> (\<Union>m\<in>set others. dom m)"
  unfolding all_gather_def
  by (induction others arbitrary: mine) auto

lemma predict_step_result:
  assumes "length (index b) \<le> length (model_generate ext (training st) (encoded b))"
  shows "predict_step ext others b batch_idx st =
           (Inr (all_gather
                  (map_of (rev (zip (index b)
                     (map (tokenizer_decode ext True False)
                        (model_generate ext (training st) (encoded b))))))
                  others),
            st\<lparr>calls := calls st @ [Generate (encoded b)]\<rparr>)"
  using assms
  by (simp add: predict_step_def Let_def batch_decode_def index_to_text_closed)

text \<open>
  C9, as the spec states it: every index value is mapped to a non-empty decoded string.
  In the small model the second row of the batch (index \<open>4\<close>) generates the end-of-sequence
  token only, and \<^verbatim>\<open>predict_step\<close> maps \<open>4\<close> to the empty string.
\<close>

theorem predict_step_empty_string_counterexample:
  "4 \<in> set (index toy_batch)
   \<and> (case fst (predict_step toy [] toy_batch 0 toy_state) of
         Inr m \<Rightarrow> m 4
       | Inl e \<Rightarrow> None) = Some []"
  by (simp add: predict_step_def toy_def toy_batch_def toy_state_def batch_decode_def
        toy_decode_def all_gather_def)

text \<open>
  C9, amended. When the model generates at least one sequence for each index value of the
  batch, \<^verbatim>\<open>predict_step\<close> calls the generation once and the model not at all (no loss is
  computed), and builds a mapping whose keys are exactly the batch's index values, each
  mapped to the decoded string of the generated sequence at its position (at the last of
  its positions when an index value repeats); that string may be empty. The mapping goes
  through the distributed gather, whose result holds the union of this worker's and the
  other workers' mappings.
\<close>

theorem predict_step_mapping:
  assumes "length (index b) \<le> length (model_generate ext (training st) (encoded b))"
  shows "\<exists>output st'.
       predict_step ext others b batch_idx st = (Inr (all_gather output others), st')
     \<and> output = map_of (rev (zip (index b)
                   (map (tokenizer_decode ext True False)
                      (model_generate ext (training st) (encoded b)))))
     \<and> dom output = set (index b)
     \<and> (distinct (index b) \<longrightarrow>
          (\<forall>i<length (index b).
             output (index b ! i) =
               Some (tokenizer_decode ext True False
                       (model_generate ext (training st) (encoded b) ! i))))
     \<and> dom (all_gather output others) = set (index b) \<union> (\<Union>m\<in>set others. dom m)
     \<and> calls st' = calls st @ [Generate (encoded b)]
     \<and> model_call_count (calls st') = model_call_count (calls st)"
proof -
  let ?g = "model_generate ext (training st) (encoded b)"
  let ?ds = "map (tokenizer_decode ext True False) ?g"
  let ?out = "map_of (rev (zip (index b) ?ds))"
  let ?st = "st\<lparr>calls := calls st @ [Generate (encoded b)]\<rparr>"
  have len: "length (index b) \<le> length ?ds" using assms by simp
  have p: "predict_step ext others b batch_idx st = (Inr (all_gather ?out others), ?st)"
    using assms by (rule predict_step_result)
  have d: "dom ?out = set (index b)"
    using len by (rule dom_map_of_rev_zip)
  have v: "distinct (index b) \<longrightarrow>
          (\<forall>i<length (index b). ?out (index b ! i) = Some (tokenizer_decode ext True False (?g ! i)))"
  proof (intro impI allI)
    fix i
    assume dist: "distinct (index b)" and i: "i < length (index b)"
    have "?out (index b ! i) = Some (?ds ! i)"
      using dist len i by (rule map_of_rev_zip_distinct)
    moreover have "i < length ?g" using i assms by simp
    ultimately show "?out (index b ! i) = Some (tokenizer_decode ext True False (?g ! i))"
      by simp
  qed
  have u: "dom (all_gather ?out others) = set (index b) \<union> (\<Union>m\<in>set others. dom m)"
    by (simp add: dom_all_gather d)
  have c: "calls ?st = calls st @ [Generate (encoded b)]" by simp
  have n: "model_call_count (calls ?st) = model_call_count (calls st)"
    by (simp add: model_call_count_def)
  from p d v u c n show ?thesis by blast
qed

theorem predict_step_mapping_witness:
  "length (index toy_batch) \<le> length (model_generate toy (training toy_state) (encoded toy_batch))
   \<and> distinct (index toy_batch)
   \<and> (case predict_step toy [[9 \<mapsto> ''b'']] toy_batch 0 toy_state of
         (Inr m, st') \<Rightarrow>
            m 7 = Some ''ab'' \<and> m 4 = Some [] \<and> m 9 = Some ''b'' \<and> dom m = {7, 4, 9}
          \<and> calls st' = [Generate (encoded toy_batch)]
       | (Inl e, st') \<Rightarrow> False)"
proof -
  have g: "model_generate toy (training toy_state) (encoded toy_batch) = [[2, 3, 1], [1, 1]]"
    by (simp add: toy_def toy_batch_def)
  have i: "index toy_batch = [7, 4]"
    by (simp add: toy_batch_def)
  have dg: "map (tokenizer_decode toy True False) [[2, 3, 1], [1, 1]] = [''ab'', []]"
    by (simp add: toy_def toy_decode_def)
  have c: "calls toy_state = []"
    by (simp add: toy_state_def)
  have h: "length (index toy_batch)
             \<le> length (model_generate toy (training toy_state) (encoded toy_batch))"
    by (simp add: g i)
  have "case predict_step toy [[9 \<mapsto> ''b'']] toy_batch 0 toy_state of
         (Inr m, st') \<Rightarrow>
            m 7 = Some ''ab'' \<and> m 4 = Some [] \<and> m 9 = Some ''b'' \<and> dom m = {7, 4, 9}
          \<and> calls st' = [Generate (encoded toy_batch)]
       | (Inl e, st') \<Rightarrow> False"
    using predict_step_mapping [OF h, of "[[9 \<mapsto> ''b'']]" 0] unfolding g i dg c
    by (elim exE conjE) (auto simp add: all_gather_def)
  then show ?thesis using h by (simp add: i)
qed

subsection \<open>The hooks at the end of an epoch\<close>

text \<open>
  C8. \<^verbatim>\<open>on_validation_epoch_end\<close> resets the validation accumulator and nothing else,
  \<^verbatim>\<open>on_test_epoch_end\<close> resets the test accumulator and nothing else,
  \<^verbatim>\<open>on_train_epoch_end\<close> changes nothing, and an accumulator that was reset holds no
  recorded samples.
\<close>

theorem epoch_end_hooks:
  "on_validation_epoch_end st = st\<lparr>val_metrics := []\<rparr>
   \<and> val_metrics (on_validation_epoch_end st) = []
   \<and> test_metrics (on_validation_epoch_end st) = test_metrics st
   \<and> on_test_epoch_end st = st\<lparr>test_metrics := []\<rparr>
   \<and> test_metrics (on_test_epoch_end st) = []
   \<and> val_metrics (on_test_epoch_end st) = val_metrics st
   \<and> on_train_epoch_end st = st"
  by (simp add: on_validation_epoch_end_def on_test_epoch_end_def on_train_epoch_end_def
        metric_reset_def)

end
